theory Spec2Isabelle
  imports Main
begin

section \<open>Repository records (repos.go)\<close>

text \<open>
  The Go struct \<open>Repository\<close>. Go strings are byte sequences, so every string field is a
  \<open>string\<close> (a list of 8-bit characters). The functions below take records, that is
  non-nil pointers; a nil receiver or argument makes the Go code panic and is outside the model
  unless a function says otherwise.
\<close>

record Repository =
  Enabled :: bool
  SourceRepo :: bool
  Options :: string
  URI :: string
  Distribution :: string
  Components :: string
  Comment :: string

text \<open>\<open>Repository.Equals\<close>: five comparisons, each with an early \<open>return false\<close>.\<close>

definition Equals :: "Repository \<Rightarrow> Repository \<Rightarrow> bool" where
  "Equals r repo =
     (if Components r \<noteq> Components repo then False
      else if Distribution r \<noteq> Distribution repo then False
      else if URI r \<noteq> URI repo then False
      else if SourceRepo r \<noteq> SourceRepo repo then False
      else if Options r \<noteq> Options repo then False
      else True)"


subsection \<open>\<open>strings.TrimSpace\<close>\<close>

text \<open>
  \<open>APTConfigLine\<close> only asks whether \<open>strings.TrimSpace(s)\<close> is the empty string, which is
  the case exactly when \<open>s\<close> decodes, left to right, into white-space runes only
  (\<open>unicode.IsSpace\<close>): the six ASCII ones, U+0085, U+00A0, U+1680, U+2000 to U+200A, U+2028,
  U+2029, U+202F, U+205F and U+3000 in their UTF-8 encodings. A byte that starts no such
  encoding is a rune that is not white space.
\<close>

definition asciiSpace :: "char \<Rightarrow> bool" where
  "asciiSpace c = (c = CHR 0x09 \<or> c = CHR 0x0A \<or> c = CHR 0x0B \<or> c = CHR 0x0C \<or> c = CHR 0x0D
                   \<or> c = CHR '' '')"

fun isBlank :: "string \<Rightarrow> bool" where
  "isBlank [] = True"
| "isBlank (c # cs) =
     (if asciiSpace c then isBlank cs
      else if c = CHR 0xC2 then
        (case cs of d # ds \<Rightarrow> (d = CHR 0x85 \<or> d = CHR 0xA0) \<and> isBlank ds | [] \<Rightarrow> False)
      else if c = CHR 0xE1 then
        (case cs of d # e # es \<Rightarrow> d = CHR 0x9A \<and> e = CHR 0x80 \<and> isBlank es | _ \<Rightarrow> False)
      else if c = CHR 0xE2 then
        (case cs of d # e # es \<Rightarrow>
           ((d = CHR 0x80 \<and> (of_char e \<in> {0x80 .. 0x8A :: nat} \<or> e = CHR 0xA8 \<or> e = CHR 0xA9
                              \<or> e = CHR 0xAF))
            \<or> (d = CHR 0x81 \<and> e = CHR 0x9F)) \<and> isBlank es
         | _ \<Rightarrow> False)
      else if c = CHR 0xE3 then
        (case cs of d # e # es \<Rightarrow> d = CHR 0x80 \<and> e = CHR 0x80 \<and> isBlank es | _ \<Rightarrow> False)
      else False)"

text \<open>\<open>Repository.APTConfigLine\<close>, statement by statement.\<close>

definition APTConfigLine :: "Repository \<Rightarrow> string" where
  "APTConfigLine r =
     (let res = (if \<not> Enabled r then ''# '' else '''');
          res = (if SourceRepo r then res @ ''deb-src '' else res @ ''deb '');
          res = (if \<not> isBlank (Options r) then res @ ''['' @ Options r @ '']'' else res);
          res = res @ URI r @ '' '' @ Distribution r @ '' '' @ Components r;
          res = (if \<not> isBlank (Comment r) then res @ '' # '' @ Comment r else res)
      in res)"

subsection \<open>The regular expression of \<open>parseAPTConfigLine\<close>\<close>

text \<open>
  Go's \<open>regexp\<close> package returns the leftmost match and, among the matches that start there,
  the one a backtracking matcher finds first: an alternation tries its left branch first, and
  \<open>?\<close>, \<open>*\<close> and \<open>+\<close> are greedy. The pattern of \<open>aptConfigLineRegexp\<close> repeats single
  characters only, so the syntax tree below has a repetition of a character class, not of an
  arbitrary expression. \<open>Eot\<close> is \<open>$\<close> without the \<open>m\<close> flag: the end of the text.
\<close>

datatype re =
    Lit char
  | Class "char \<Rightarrow> bool"
  | Star "char \<Rightarrow> bool"
  | Seq re re
  | Alt re re
  | Opt re
  | Group nat re
  | Eot

text \<open>
  Submatches are an association list from the group index to the text the group matched; a
  later binding shadows an earlier one. The matcher is written with a continuation \<open>k\<close> that
  matches the rest of the pattern on the rest of the text, so that a repetition or an option
  gives characters back when the continuation fails.
\<close>

type_synonym caps = "(nat \<times> string) list"

fun star :: "(char \<Rightarrow> bool) \<Rightarrow> string \<Rightarrow> (string \<Rightarrow> caps option) \<Rightarrow> caps option" where
  "star p [] k = k []"
| "star p (c # cs) k =
     (if p c then (case star p cs k of Some g \<Rightarrow> Some g | None \<Rightarrow> k (c # cs)) else k (c # cs))"

fun rmatch :: "re \<Rightarrow> string \<Rightarrow> caps \<Rightarrow> (string \<Rightarrow> caps \<Rightarrow> caps option) \<Rightarrow> caps option" where
  "rmatch (Lit c) s g k = (case s of [] \<Rightarrow> None | x # xs \<Rightarrow> if x = c then k xs g else None)"
| "rmatch (Class p) s g k = (case s of [] \<Rightarrow> None | x # xs \<Rightarrow> if p x then k xs g else None)"
| "rmatch (Star p) s g k = star p s (\<lambda>s'. k s' g)"
| "rmatch (Seq a b) s g k = rmatch a s g (\<lambda>s' g'. rmatch b s' g' k)"
| "rmatch (Alt a b) s g k = (case rmatch a s g k of Some h \<Rightarrow> Some h | None \<Rightarrow> rmatch b s g k)"
| "rmatch (Opt a) s g k = (case rmatch a s g k of Some h \<Rightarrow> Some h | None \<Rightarrow> k s g)"
| "rmatch (Group n a) s g k =
     rmatch a s g (\<lambda>s' g'. k s' ((n, take (length s - length s') s) # g'))"
| "rmatch Eot s g k = (if s = [] then k s g else None)"

text \<open>A literal string \<open>c cs\<close> of at least one character, and \<open>x+\<close> as \<open>xx*\<close>.\<close>

fun lits :: "char \<Rightarrow> string \<Rightarrow> re" where
  "lits c [] = Lit c"
| "lits c (d # ds) = Seq (Lit c) (lits d ds)"

definition Plus :: "(char \<Rightarrow> bool) \<Rightarrow> re" where
  "Plus p = Seq (Class p) (Star p)"

text \<open>
  The character classes of the pattern. In Go \<open>.\<close> matches every character but a newline,
  \<open>[^ ]\<close> every character but a space (a newline too) and \<open>[^#\n]\<close> every character but
  \<open>#\<close> and newline. Go matches rune by rune and the model byte by byte; the two agree on this
  pattern, because every repetition is followed by an ASCII character or the end of the text,
  and an ASCII byte never lies inside a multi-byte rune.
\<close>

definition anyChar :: "char \<Rightarrow> bool" where
  "anyChar c = (c \<noteq> CHR 0x0A)"

definition notSpace :: "char \<Rightarrow> bool" where
  "notSpace c = (c \<noteq> CHR '' '')"

definition isSpace :: "char \<Rightarrow> bool" where
  "isSpace c = (c = CHR '' '')"

definition notHashNl :: "char \<Rightarrow> bool" where
  "notHashNl c = (c \<noteq> CHR ''#'' \<and> c \<noteq> CHR 0x0A)"

text \<open>
  \<^verbatim>\<open>^(# )?(deb|deb-src)(?: \[(.*)\])? ([^ ]+) ([^ ]+) ([^#\n]+)(?: +# *(.*))?$\<close>
  The leading \<open>^\<close> is the start of the text: the match is tried at position 0 only.
\<close>

definition optionsRe :: re where
  "optionsRe = Seq (lits CHR '' '' ''['') (Seq (Group 3 (Star anyChar)) (Lit CHR '']''))"

definition commentRe :: re where
  "commentRe =
     Seq (Plus isSpace) (Seq (Lit CHR ''#'') (Seq (Star isSpace) (Group 7 (Star anyChar))))"

definition tailRe :: re where
  "tailRe = Seq (Group 6 (Plus notHashNl)) (Seq (Opt commentRe) Eot)"

definition fieldsRe :: re where
  "fieldsRe =
     Seq (Opt optionsRe)
    (Seq (Lit CHR '' '') (Seq (Group 4 (Plus notSpace))
    (Seq (Lit CHR '' '') (Seq (Group 5 (Plus notSpace))
    (Seq (Lit CHR '' '') tailRe)))))"

definition aptConfigLineRegexp :: re where
  "aptConfigLineRegexp =
     Seq (Opt (Group 1 (lits CHR ''#'' '' '')))
    (Seq (Group 2 (Alt (lits CHR ''d'' ''eb'') (lits CHR ''d'' ''eb-src''))) fieldsRe)"

text \<open>
  \<open>FindAllStringSubmatch(line, -1)\<close>: the pattern starts with \<open>^\<close>, so there is at most one
  match and \<open>match[0]\<close> is it. \<open>fields[i]\<close> is the text of group \<open>i\<close>, the empty string for a
  group that took no part in the match. \<open>match[0]\<close> always has eight entries, so the test
  \<open>len(match[0]) < 6\<close> never holds.
\<close>

definition findSubmatch :: "string \<Rightarrow> caps option" where
  "findSubmatch line = rmatch aptConfigLineRegexp line [] (\<lambda>s g. Some g)"

definition field :: "caps \<Rightarrow> nat \<Rightarrow> string" where
  "field g i = (case map_of g i of None \<Rightarrow> [] | Some t \<Rightarrow> t)"

text \<open>\<open>parseAPTConfigLine\<close>: \<open>None\<close> is the nil pointer returned for a line that does not match.\<close>

definition parseAPTConfigLine :: "string \<Rightarrow> Repository option" where
  "parseAPTConfigLine line =
     (case findSubmatch line of
        None \<Rightarrow> None
      | Some match0 \<Rightarrow>
          Some \<lparr> Enabled = (field match0 1 \<noteq> ''# ''),
                 SourceRepo = (field match0 2 = ''deb-src''),
                 Options = field match0 3,
                 URI = field match0 4,
                 Distribution = field match0 5,
                 Components = field match0 6,
                 Comment = field match0 7 \<rparr>)"


subsection \<open>\<open>bufio.Scanner\<close> with the default line splitter\<close>

text \<open>
  \<open>for scanner.Scan() { ... scanner.Text() ... }\<close> visits the lines of the data: the text
  before each newline and, when it is not empty, the text after the last one, each without one
  trailing carriage return. The scanner's buffer holds \<open>MaxScanTokenSize\<close> = 64 * 1024 bytes:
  at a line of that many bytes or more \<open>Scan\<close> returns false and the loop ends; the callers
  here never look at \<open>scanner.Err()\<close>. \<open>scanFrom acc rest\<close> has read \<open>acc\<close> of the current
  line.
\<close>

definition MaxScanTokenSize :: nat where
  "MaxScanTokenSize = 64 * 1024"

definition dropCR :: "string \<Rightarrow> string" where
  "dropCR data = (if data \<noteq> [] \<and> last data = CHR 0x0D then butlast data else data)"

fun scanFrom :: "string \<Rightarrow> string \<Rightarrow> string list" where
  "scanFrom acc [] =
     (if acc = [] \<or> MaxScanTokenSize \<le> length acc then [] else [dropCR acc])"
| "scanFrom acc (c # cs) =
     (if c = CHR 0x0A
      then (if MaxScanTokenSize \<le> length acc then [] else dropCR acc # scanFrom [] cs)
      else scanFrom (acc @ [c]) cs)"

definition scanLines :: "string \<Rightarrow> string list" where
  "scanLines data = scanFrom [] data"

subsection \<open>The file system\<close>

text \<open>
  What the code asks of the operating system: reading a file, listing a directory, opening a
  file for writing and writing to it. \<open>nodes\<close> says what is at a path; a directory carries the
  names \<open>ioutil.ReadDir\<close> returns, in its order. \<open>read_fault\<close> and \<open>write_fault\<close> are the paths
  that cannot be opened for reading or for writing (permissions, a missing parent directory),
  and \<open>short_write\<close> the paths on which a write stores only so many bytes before it fails
  (a full device).
\<close>

datatype oserr = ErrNotExist | ErrPermission | ErrIsDir | ErrNotDir | ErrShortWrite

datatype node = File string | Dir "string list"

record fs =
  nodes :: "string \<rightharpoonup> node"
  read_fault :: "string \<rightharpoonup> oserr"
  write_fault :: "string \<rightharpoonup> oserr"
  short_write :: "string \<rightharpoonup> nat"

definition ReadFile :: "fs \<Rightarrow> string \<Rightarrow> oserr + string" where
  "ReadFile s p =
     (case read_fault s p of
        Some e \<Rightarrow> Inl e
      | None \<Rightarrow> (case nodes s p of
                   None \<Rightarrow> Inl ErrNotExist
                 | Some (Dir ns) \<Rightarrow> Inl ErrIsDir
                 | Some (File c) \<Rightarrow> Inr c))"

definition ReadDir :: "fs \<Rightarrow> string \<Rightarrow> oserr + string list" where
  "ReadDir s p =
     (case read_fault s p of
        Some e \<Rightarrow> Inl e
      | None \<Rightarrow> (case nodes s p of
                   None \<Rightarrow> Inl ErrNotExist
                 | Some (File c) \<Rightarrow> Inl ErrNotDir
                 | Some (Dir ns) \<Rightarrow> Inr ns))"







subsection \<open>Reading the configuration\<close>

text \<open>
  The errors of repos.go are built with \<open>fmt.Errorf\<close>; one constructor stands for each format
  string, with the path and the wrapped error it prints:
  \<open>"Reading %s: %s"\<close>, \<open>"Reading %s folder: %s"\<close>, \<open>"Parsing %s: %s"\<close>,
  \<open>"parsing APT config: %s"\<close>, \<open>"The repository is already configured"\<close>,
  \<open>"Opening %s: %s"\<close> and \<open>"Writing repo data to config file %s: %s"\<close>.
\<close>

datatype error =
    ReadingFile string oserr
  | ReadingFolder string oserr
  | ParsingFile string error
  | ParsingConfig error
  | AlreadyConfigured
  | OpeningFile string oserr
  | WritingFile string oserr

text \<open>The loop of \<open>parseAPTConfigFile\<close> over the scanned lines, and the function.\<close>

fun parseLines :: "string list \<Rightarrow> Repository list \<Rightarrow> Repository list" where
  "parseLines [] res = res"
| "parseLines (line # rest) res =
     (case parseAPTConfigLine line of
        Some repo \<Rightarrow> parseLines rest (res @ [repo])
      | None \<Rightarrow> parseLines rest res)"

definition parseAPTConfigFile :: "fs \<Rightarrow> string \<Rightarrow> error + Repository list" where
  "parseAPTConfigFile s configPath =
     (case ReadFile s configPath of
        Inl err \<Rightarrow> Inl (ReadingFile configPath err)
      | Inr data \<Rightarrow> Inr (parseLines (scanLines data) []))"

definition HasSuffix :: "string \<Rightarrow> string \<Rightarrow> bool" where
  "HasSuffix t suffix =
     (length suffix \<le> length t \<and> drop (length t - length suffix) t = suffix)"

text \<open>
  \<open>filepath.Join\<close> is a parameter \<open>Join\<close> of the functions below: they hold for every way of
  joining path elements. The first loop of \<open>ParseAPTConfigFolder\<close> collects the paths of the
  \<open>.list\<close> entries, the second parses each source and stops at the first error.
\<close>

fun listSources :: "(string list \<Rightarrow> string) \<Rightarrow> string \<Rightarrow> string list \<Rightarrow> string list \<Rightarrow> string list"
where
  "listSources Join sourcesFolder [] sources = sources"
| "listSources Join sourcesFolder (l # list) sources =
     (if HasSuffix l ''.list''
      then listSources Join sourcesFolder list (sources @ [Join [sourcesFolder, l]])
      else listSources Join sourcesFolder list sources)"

fun parseSources :: "fs \<Rightarrow> string list \<Rightarrow> Repository list \<Rightarrow> error + Repository list" where
  "parseSources s [] res = Inr res"
| "parseSources s (source # sources) res =
     (case parseAPTConfigFile s source of
        Inl err \<Rightarrow> Inl (ParsingFile source err)
      | Inr repos \<Rightarrow> parseSources s sources (res @ repos))"

definition ParseAPTConfigFolder ::
  "(string list \<Rightarrow> string) \<Rightarrow> fs \<Rightarrow> string \<Rightarrow> error + Repository list" where
  "ParseAPTConfigFolder Join s folderPath =
     (let sources = [Join [folderPath, ''sources.list'']];
          sourcesFolder = Join [folderPath, ''sources.list.d'']
      in case ReadDir s sourcesFolder of
           Inl err \<Rightarrow> Inl (ReadingFolder sourcesFolder err)
         | Inr list \<Rightarrow> parseSources s (listSources Join sourcesFolder list sources) [])"

subsection \<open>\<open>AddRepository\<close>\<close>


text \<open>
  A plain way of joining path elements, for concrete file systems: the elements with a slash
  between them.
\<close>

fun slashJoin :: "string list \<Rightarrow> string" where
  "slashJoin [] = []"
| "slashJoin [e] = e"
| "slashJoin (e # es) = e @ ''/'' @ slashJoin es"


section \<open>Packages and external tools (apt.go)\<close>

record Package =
  Name :: string
  Status :: string
  Architecture :: string
  Version :: string
  ShortDescription :: string
  InstalledSizeKB :: int

subsection \<open>\<open>strings.Split\<close> and \<open>strconv.Atoi\<close>\<close>

text \<open>
  \<open>strings.Split(s, sep)\<close> for a separator of one character: the pieces between the
  separators, one more than there are separators, so never an empty slice. \<open>splitFrom\<close> holds
  the piece being read.
\<close>

fun splitFrom :: "char \<Rightarrow> string \<Rightarrow> string \<Rightarrow> string list" where
  "splitFrom sep acc [] = [acc]"
| "splitFrom sep acc (c # cs) =
     (if c = sep then acc # splitFrom sep [] cs else splitFrom sep (acc @ [c]) cs)"

definition Split :: "string \<Rightarrow> char \<Rightarrow> string list" where
  "Split s sep = splitFrom sep [] s"

text \<open>
  \<open>strconv.Atoi\<close>: an optional sign and at least one decimal digit, nothing else, and a value
  that fits \<open>int\<close> (64 bits); \<open>None\<close> is any error, of syntax or of range.
\<close>

definition isDigit :: "char \<Rightarrow> bool" where
  "isDigit c = (48 \<le> (of_char c :: nat) \<and> (of_char c :: nat) \<le> 57)"

fun digitsVal :: "int \<Rightarrow> string \<Rightarrow> int option" where
  "digitsVal n [] = Some n"
| "digitsVal n (c # cs) =
     (if isDigit c then digitsVal (n * 10 + (of_char c - 48)) cs else None)"

definition Atoi :: "string \<Rightarrow> int option" where
  "Atoi s =
     (case s of
        [] \<Rightarrow> None
      | c # cs \<Rightarrow>
          let body = (if c = CHR ''-'' \<or> c = CHR ''+'' then cs else s) in
          if body = [] then None
          else (case digitsVal 0 body of
                  None \<Rightarrow> None
                | Some n \<Rightarrow>
                    let v = (if c = CHR ''-'' then - n else n) in
                    if - (2 ^ 63) \<le> v \<and> v < 2 ^ 63 then Some v else None))"

subsection \<open>\<open>parseDpkgQueryOutput\<close>\<close>

text \<open>
  Indexing a slice beyond its length panics in Go; the panic is the left summand. \<open>data[4]\<close>
  is read first, for \<open>Atoi\<close>, then the fields of the struct literal in their order, of which
  only \<open>data[5]\<close> can still be out of range.
\<close>

datatype panic = IndexOutOfRange nat nat

fun parseRows :: "string list \<Rightarrow> Package list \<Rightarrow> panic + Package list" where
  "parseRows [] res = Inr res"
| "parseRows (text # rest) res =
     (let data = Split text (CHR 0x09) in
      if length data \<le> 4 then Inl (IndexOutOfRange 4 (length data))
      else
        let size = (case Atoi (data ! 4) of None \<Rightarrow> 0 | Some n \<Rightarrow> n) in
        if length data \<le> 5 then Inl (IndexOutOfRange 5 (length data))
        else parseRows rest
               (res @ [\<lparr> Name = data ! 0, Status = data ! 2, Architecture = data ! 1,
                         Version = data ! 3, ShortDescription = data ! 5,
                         InstalledSizeKB = size \<rparr>]))"

definition parseDpkgQueryOutput :: "string \<Rightarrow> panic + Package list" where
  "parseDpkgQueryOutput out = parseRows (scanLines out) []"

subsection \<open>Running external tools\<close>

text \<open>
  \<open>exec.Command(name, args...)\<close> followed by \<open>CombinedOutput\<close> or \<open>Output\<close>. The system is the
  list of the invocations made so far and the answer of each tool: its standard output, its
  standard output and error combined, and the error of the run (\<open>None\<close> for nil).
\<close>

datatype exec_error = ExitError nat | StartError string

record answer =
  stdout :: string
  combined :: string
  failure :: "exec_error option"

record sys =
  invocations :: "(string \<times> string list) list"
  tool :: "string \<Rightarrow> string list \<Rightarrow> answer"

definition run :: "sys \<Rightarrow> string \<Rightarrow> string list \<Rightarrow> answer \<times> sys" where
  "run w name args = (tool w name args, w\<lparr>invocations := invocations w @ [(name, args)]\<rparr>)"

text \<open>
  The errors of apt.go: \<open>"<function>: Invalid package with empty Name"\<close> with the name the
  message carries, and the error of a run returned as it is.
\<close>

datatype apt_error = InvalidPackage string | ExecError exec_error

text \<open>
  The loop shared, word for word, by \<open>Upgrade\<close>, \<open>Remove\<close> and \<open>Install\<close>: it appends the names
  to \<open>args\<close> and returns at the first package that is nil (\<open>None\<close>) or has an empty name.
\<close>

fun appendNames :: "string list \<Rightarrow> Package option list \<Rightarrow> string list option" where
  "appendNames args [] = Some args"
| "appendNames args (pack # packs) =
     (case pack of
        None \<Rightarrow> None
      | Some p \<Rightarrow> if Name p = [] then None else appendNames (args @ [Name p]) packs)"

text \<open>The result of an operation: the output (empty for nil), the error, and the system.\<close>

type_synonym op_result = "(string \<times> apt_error option) \<times> sys"

definition CombinedOutput :: "sys \<Rightarrow> string \<Rightarrow> string list \<Rightarrow> op_result" where
  "CombinedOutput w name args =
     (let (a, w') = run w name args in ((combined a, map_option ExecError (failure a)), w'))"

definition Upgrade :: "Package option list \<Rightarrow> sys \<Rightarrow> op_result" where
  "Upgrade packs w =
     (case appendNames [''upgrade'', ''-y''] packs of
        None \<Rightarrow> (([], Some (InvalidPackage ''apt.Upgrade'')), w)
      | Some args \<Rightarrow> CombinedOutput w ''apt-get'' args)"

definition UpgradeAll :: "sys \<Rightarrow> op_result" where
  "UpgradeAll w = CombinedOutput w ''apt-get'' [''upgrade'', ''-y'']"

definition Remove :: "Package option list \<Rightarrow> sys \<Rightarrow> op_result" where
  "Remove packs w =
     (case appendNames [''remove'', ''-y''] packs of
        None \<Rightarrow> (([], Some (InvalidPackage ''apt.Remove'')), w)
      | Some args \<Rightarrow> CombinedOutput w ''apt-get'' args)"

definition Install :: "Package option list \<Rightarrow> sys \<Rightarrow> op_result" where
  "Install packs w =
     (case appendNames [''install'', ''-y''] packs of
        None \<Rightarrow> (([], Some (InvalidPackage ''apt.Install'')), w)
      | Some args \<Rightarrow> CombinedOutput w ''apt-get'' args)"

subsection \<open>\<open>GetDependencies\<close>\<close>

text \<open>
  The loop over the reversed lines, with the map \<open>depSeen\<close> as the set of its keys.
  \<open>strings.Split\<close> never returns an empty slice, so \<open>len(split) > 0\<close> holds and
  \<open>split[len(split)-1]\<close> is its last element; the test is kept as the source has it.
\<close>

fun depLoop :: "string \<Rightarrow> string list \<Rightarrow> string set \<Rightarrow> string list \<Rightarrow> string list" where
  "depLoop name [] depSeen depList = depList"
| "depLoop name (dep # rest) depSeen depList =
     (let split = Split dep (CHR '' '') in
      if length split > 0 then
        (let depName = split ! (length split - 1) in
         if depName = [] \<or> depName = name then depLoop name rest depSeen depList
         else if depName \<in> depSeen then depLoop name rest depSeen depList
         else depLoop name rest (insert depName depSeen) (depList @ [depName]))
      else depLoop name rest depSeen depList)"

definition GetDependencies :: "Package option \<Rightarrow> sys \<Rightarrow> (string list \<times> apt_error option) \<times> sys"
where
  "GetDependencies pack w =
     (case pack of
        None \<Rightarrow> (([], Some (InvalidPackage ''apt.GetDependencies'')), w)
      | Some p \<Rightarrow>
          if Name p = [] then (([], Some (InvalidPackage ''apt.GetDependencies'')), w)
          else
            (let (a, w') = run w ''apt-cache'' [''depends'', ''-i'', ''--recurse'', Name p] in
             (case failure a of
                Some err \<Rightarrow> (([], Some (ExecError err)), w')
              | None \<Rightarrow>
                  (let splitOutput = rev (Split (stdout a) (CHR 0x0A))
                   in ((depLoop (Name p) splitOutput {} [], None), w')))))"

section \<open>What the specification says\<close>

text \<open>
  The notions the specification uses and the code does not name. A repository is well formed
  when every field is a text the grammar of a configuration line admits at the field's place:
  URI and distribution are non-empty and without a space, the components are non-empty and
  without \<open>#\<close> and newline, options and comment are without a newline.
\<close>

definition wellFormed :: "Repository \<Rightarrow> bool" where
  "wellFormed r =
     (URI r \<noteq> [] \<and> CHR '' '' \<notin> set (URI r) \<and>
      Distribution r \<noteq> [] \<and> CHR '' '' \<notin> set (Distribution r) \<and>
      Components r \<noteq> [] \<and> CHR ''#'' \<notin> set (Components r) \<and> CHR 0x0A \<notin> set (Components r) \<and>
      CHR 0x0A \<notin> set (Options r) \<and> CHR 0x0A \<notin> set (Comment r))"




text \<open>
  The error kinds of the specification: every error of repos.go but the duplicate one reports
  a file or a directory that could not be read or written.
\<close>

fun fileAccessError :: "error \<Rightarrow> bool" where
  "fileAccessError (ReadingFile p e) = True"
| "fileAccessError (ReadingFolder p e) = True"
| "fileAccessError (ParsingFile p e) = fileAccessError e"
| "fileAccessError (ParsingConfig e) = fileAccessError e"
| "fileAccessError AlreadyConfigured = False"
| "fileAccessError (OpeningFile p e) = True"
| "fileAccessError (WritingFile p e) = True"



text \<open>
  The package a row of six or more tab-separated fields stands for, and a numeric field: an
  optional sign and at least one digit, nothing else.
\<close>

definition rowOf :: "string \<Rightarrow> Package" where
  "rowOf text =
     (let data = Split text (CHR 0x09) in
      \<lparr> Name = data ! 0, Status = data ! 2, Architecture = data ! 1, Version = data ! 3,
        ShortDescription = data ! 5,
        InstalledSizeKB = (case Atoi (data ! 4) of None \<Rightarrow> 0 | Some n \<Rightarrow> n) \<rparr>)"

definition numeric :: "string \<Rightarrow> bool" where
  "numeric f =
     (let digits = (if f \<noteq> [] \<and> (hd f = CHR ''-'' \<or> hd f = CHR ''+'') then tl f else f)
      in digits \<noteq> [] \<and> (\<forall>c \<in> set digits. isDigit c))"

text \<open>A target package is invalid when it is nil or has an empty name.\<close>

definition invalidPack :: "Package option \<Rightarrow> bool" where
  "invalidPack pack = (case pack of None \<Rightarrow> True | Some p \<Rightarrow> Name p = [])"

definition names :: "Package option list \<Rightarrow> string list" where
  "names packs = map (\<lambda>pack. case pack of None \<Rightarrow> [] | Some p \<Rightarrow> Name p) packs"

text \<open>
  The dependency list as the specification describes it: the lines in reverse order, the last
  space-separated token of each, without the empty names and the queried name, and of each
  name the first occurrence only.
\<close>

definition lastToken :: "string \<Rightarrow> string" where
  "lastToken line = last (Split line (CHR '' ''))"

fun keepFirst :: "string list \<Rightarrow> string list" where
  "keepFirst [] = []"
| "keepFirst (x # xs) = x # keepFirst (filter (\<lambda>y. y \<noteq> x) xs)"

definition dependencyNames :: "string \<Rightarrow> string \<Rightarrow> string list" where
  "dependencyNames out name =
     keepFirst (filter (\<lambda>n. n \<noteq> [] \<and> n \<noteq> name)
                  (map lastToken (rev (Split out (CHR 0x0A)))))"


section \<open>Concrete inputs\<close>

definition focalMain :: Repository where
  "focalMain =
     \<lparr> Enabled = True, SourceRepo = False, Options = [],
       URI = ''http://archive.ubuntu.com/ubuntu'', Distribution = ''focal'',
       Components = ''main restricted'', Comment = ''base system'' \<rparr>"


definition focalAmd64 :: Repository where
  "focalAmd64 =
     \<lparr> Enabled = True, SourceRepo = False, Options = ''arch=amd64'',
       URI = ''http://archive.ubuntu.com/ubuntu'', Distribution = ''focal'',
       Components = ''main'', Comment = [] \<rparr>"










text \<open>A folder without the primary file, and one without the drop-in directory.\<close>

definition noPrimaryFs :: fs where
  "noPrimaryFs =
     \<lparr> nodes = map_of [(''/etc/apt/sources.list.d'', Dir [])], read_fault = map_of [],
       write_fault = map_of [], short_write = map_of [] \<rparr>"

definition noDropInFs :: fs where
  "noDropInFs =
     \<lparr> nodes = map_of [(''/etc/apt/sources.list'', File [])], read_fault = map_of [],
       write_fault = map_of [], short_write = map_of [] \<rparr>"

text \<open>Packages by name, a tool that prints nothing, and one that prints three dependency lines.\<close>

definition pkg :: "string \<Rightarrow> Package" where
  "pkg n = \<lparr> Name = n, Status = [], Architecture = [], Version = [], ShortDescription = [],
             InstalledSizeKB = 0 \<rparr>"

definition quietTool :: "string \<Rightarrow> string list \<Rightarrow> answer" where
  "quietTool name args = \<lparr> stdout = [], combined = [], failure = None \<rparr>"

definition dependsTool :: "string \<Rightarrow> string list \<Rightarrow> answer" where
  "dependsTool name args =
     \<lparr> stdout = [CHR 0x0A] @ ''libc6'' @ [CHR 0x0A] @ ''libfoo'' @ [CHR 0x0A] @ ''mypkg'',
       combined = [], failure = None \<rparr>"

definition idle :: "(string \<Rightarrow> string list \<Rightarrow> answer) \<Rightarrow> sys" where
  "idle t = \<lparr> invocations = [], tool = t \<rparr>"

text \<open>Rows of package-status output: one without the size field, one with an empty one.\<close>

definition shortRow :: string where
  "shortRow = ''vim'' @ [CHR 0x09] @ ''amd64'' @ [CHR 0x09] @ ''installed'' @ [CHR 0x09] @ ''9.0''"

definition emptySizeRow :: string where
  "emptySizeRow = shortRow @ [CHR 0x09, CHR 0x09] @ ''Vi IMproved''"

section \<open>The matcher on rendered lines\<close>





















lemmas re_defs =
  parseAPTConfigLine_def findSubmatch_def aptConfigLineRegexp_def fieldsRe_def tailRe_def
  optionsRe_def commentRe_def Plus_def anyChar_def notSpace_def isSpace_def notHashNl_def
  field_def

section \<open>Rendering and parsing a repository\<close>

text \<open>
  C1: for every well-formed repository with non-empty URI, distribution and components,
  parsing the rendered line gives a record that agrees with the repository on URI,
  distribution, components, source flag and options. The code does not do this for a
  repository with options: \<open>APTConfigLine\<close> writes no space after the closing bracket, the
  pattern of \<open>parseAPTConfigLine\<close> wants one, and so the bracketed options are read as the
  start of the URI. Here is the code on \<open>deb [arch=amd64]http://archive.ubuntu.com/ubuntu
  focal main\<close>, the line it renders for a well-formed repository with the option
  \<open>arch=amd64\<close>: the parsed record has no options and another URI, and \<open>Equals\<close> is false.
\<close>

theorem render_parse_drops_options:
  "wellFormed focalAmd64 \<and>
   APTConfigLine focalAmd64 = ''deb [arch=amd64]http://archive.ubuntu.com/ubuntu focal main'' \<and>
   parseAPTConfigLine (APTConfigLine focalAmd64) =
     Some (focalAmd64 \<lparr> Options := [],
                         URI := ''[arch=amd64]http://archive.ubuntu.com/ubuntu'' \<rparr>) \<and>
   \<not> Equals (focalAmd64 \<lparr> Options := [],
                           URI := ''[arch=amd64]http://archive.ubuntu.com/ubuntu'' \<rparr>)
             focalAmd64"
proof (intro conjI)
  show "wellFormed focalAmd64"
    by (simp add: wellFormed_def focalAmd64_def)
  show line: "APTConfigLine focalAmd64 =
      ''deb [arch=amd64]http://archive.ubuntu.com/ubuntu focal main''"
    by (simp add: APTConfigLine_def focalAmd64_def asciiSpace_def)
  show "parseAPTConfigLine (APTConfigLine focalAmd64) =
     Some (focalAmd64 \<lparr> Options := [],
                         URI := ''[arch=amd64]http://archive.ubuntu.com/ubuntu'' \<rparr>)"
    unfolding line by (simp add: re_defs focalAmd64_def)
  show "\<not> Equals (focalAmd64 \<lparr> Options := [],
                           URI := ''[arch=amd64]http://archive.ubuntu.com/ubuntu'' \<rparr>)
             focalAmd64"
    by (simp add: Equals_def focalAmd64_def)
qed




section \<open>Equality of repositories\<close>

text \<open>
  C4: for every two repositories, \<open>Equals\<close> holds if and only if URI, distribution,
  components, source flag and options all agree; the enabled flag and the comment have no
  effect on it.
\<close>

theorem Equals_five_fields:
  "(Equals r s \<longleftrightarrow>
      URI r = URI s \<and> Distribution r = Distribution s \<and> Components r = Components s \<and>
      SourceRepo r = SourceRepo s \<and> Options r = Options s) \<and>
   Equals (r\<lparr>Enabled := e, Comment := c\<rparr>) (s\<lparr>Enabled := e', Comment := c'\<rparr>) = Equals r s"
  by (auto simp: Equals_def)

theorem Equals_five_fields_witness:
  "Equals focalMain (focalMain\<lparr>Enabled := False, Comment := ''mirror''\<rparr>) \<and>
   \<not> Equals focalMain (focalMain\<lparr>SourceRepo := True\<rparr>) \<and>
   \<not> Equals focalMain focalAmd64"
  using Equals_five_fields [where r = focalMain and s = focalMain and e = True
        and c = "''base system''" and e' = False and c' = "''mirror''"]
    Equals_five_fields [of focalMain "focalMain\<lparr>SourceRepo := True\<rparr>"]
    Equals_five_fields [of focalMain focalAmd64]
  by (simp add: focalMain_def focalAmd64_def)


section \<open>Reading a configuration folder\<close>

lemma listSources_eq:
  "listSources Join sf list acc =
     acc @ map (\<lambda>l. Join [sf, l]) (filter (\<lambda>l. HasSuffix l ''.list'') list)"
  by (induction list arbitrary: acc) auto












text \<open>
  C6: \<open>ParseAPTConfigFolder\<close> fails with a file-access error whenever the directory
  \<open>sources.list.d\<close> cannot be listed; and when the listing succeeds and the primary file
  \<open>sources.list\<close> is absent, the failed read of that file is returned, an error of the same
  kind: a missing primary file is not treated specially.
\<close>

theorem ParseAPTConfigFolder_file_access:
  "(\<forall>err. ReadDir s (Join [folderPath, ''sources.list.d'']) = Inl err \<longrightarrow>
      ParseAPTConfigFolder Join s folderPath =
        Inl (ReadingFolder (Join [folderPath, ''sources.list.d'']) err) \<and>
      fileAccessError (ReadingFolder (Join [folderPath, ''sources.list.d'']) err)) \<and>
   (\<forall>list. ReadDir s (Join [folderPath, ''sources.list.d'']) = Inr list \<longrightarrow>
      nodes s (Join [folderPath, ''sources.list'']) = None \<longrightarrow>
      (\<exists>err. ReadFile s (Join [folderPath, ''sources.list'']) = Inl err \<and>
         ParseAPTConfigFolder Join s folderPath =
           Inl (ParsingFile (Join [folderPath, ''sources.list''])
                  (ReadingFile (Join [folderPath, ''sources.list'']) err)) \<and>
         fileAccessError (ParsingFile (Join [folderPath, ''sources.list''])
                  (ReadingFile (Join [folderPath, ''sources.list'']) err))))"
  by (auto simp: ParseAPTConfigFolder_def listSources_eq parseAPTConfigFile_def ReadFile_def
           split: option.splits)

theorem ParseAPTConfigFolder_file_access_witness:
  "ReadDir noDropInFs (slashJoin [''/etc/apt'', ''sources.list.d'']) = Inl ErrNotExist \<and>
   ParseAPTConfigFolder slashJoin noDropInFs ''/etc/apt'' =
     Inl (ReadingFolder ''/etc/apt/sources.list.d'' ErrNotExist) \<and>
   ReadDir noPrimaryFs (slashJoin [''/etc/apt'', ''sources.list.d'']) = Inr [] \<and>
   nodes noPrimaryFs (slashJoin [''/etc/apt'', ''sources.list'']) = None \<and>
   ParseAPTConfigFolder slashJoin noPrimaryFs ''/etc/apt'' =
     Inl (ParsingFile ''/etc/apt/sources.list''
            (ReadingFile ''/etc/apt/sources.list'' ErrNotExist))"
proof -
  have a: "ReadDir noDropInFs (slashJoin [''/etc/apt'', ''sources.list.d'']) = Inl ErrNotExist"
    by (simp add: ReadDir_def noDropInFs_def)
  have b: "ReadDir noPrimaryFs (slashJoin [''/etc/apt'', ''sources.list.d'']) = Inr []"
    by (simp add: ReadDir_def noPrimaryFs_def)
  have c: "nodes noPrimaryFs (slashJoin [''/etc/apt'', ''sources.list'']) = None"
    by (simp add: noPrimaryFs_def)
  have d: "ReadFile noPrimaryFs (slashJoin [''/etc/apt'', ''sources.list'']) = Inl ErrNotExist"
    by (simp add: ReadFile_def noPrimaryFs_def)
  show ?thesis
    using a b c d
      ParseAPTConfigFolder_file_access [of noDropInFs slashJoin "''/etc/apt''"]
      ParseAPTConfigFolder_file_access [of noPrimaryFs slashJoin "''/etc/apt''"]
    by auto
qed

section \<open>Adding a repository\<close>




section \<open>Package-status output\<close>

lemma digitsVal_None: "c \<in> set ds \<Longrightarrow> \<not> isDigit c \<Longrightarrow> digitsVal n ds = None"
  by (induction ds arbitrary: n) auto

lemma Atoi_non_numeric:
  assumes "\<not> numeric f"
  shows "Atoi f = None"
proof (cases f)
  case Nil
  then show ?thesis by (simp add: Atoi_def)
next
  case (Cons c cs)
  define body where "body = (if c = CHR ''-'' \<or> c = CHR ''+'' then cs else f)"
  have "body = [] \<or> (\<exists>d \<in> set body. \<not> isDigit d)"
    using assms Cons by (auto simp: numeric_def body_def)
  then have "body = [] \<or> digitsVal 0 body = None"
    by (metis digitsVal_None)
  moreover have "Atoi f =
      (if body = [] then None
       else case digitsVal 0 body of
              None \<Rightarrow> None
            | Some n \<Rightarrow>
                let v = (if c = CHR ''-'' then - n else n) in
                if - (2 ^ 63) \<le> v \<and> v < 2 ^ 63 then Some v else None)"
    unfolding Atoi_def body_def Cons by (simp only: list.case Let_def)
  ultimately show ?thesis by auto
qed

lemma parseRows_ok:
  "\<forall>text \<in> set ls. 6 \<le> length (Split text (CHR 0x09)) \<Longrightarrow>
   parseRows ls res = Inr (res @ map rowOf ls)"
  by (induction ls arbitrary: res) (auto simp: Let_def rowOf_def)

text \<open>
  C2: for every input of \<open>parseDpkgQueryOutput\<close>, a line whose installed-size field is
  missing or not numeric is tolerated: the parser never fails, the record has
  \<open>InstalledSizeKB\<close> 0 and keeps the other fields. As stated this fails on a line from which
  the field is missing: \<open>shortRow\<close> has four fields, and reading \<open>data[4]\<close> panics.
\<close>

theorem parseDpkgQueryOutput_short_row_counterexample:
  "Split shortRow (CHR 0x09) = [''vim'', ''amd64'', ''installed'', ''9.0''] \<and>
   parseDpkgQueryOutput shortRow = Inl (IndexOutOfRange 4 4)"
  by (simp add: shortRow_def parseDpkgQueryOutput_def scanLines_def Split_def
        MaxScanTokenSize_def dropCR_def)

text \<open>
  C2, amended: for every input whose lines all have at least six tab-separated fields, the
  parser does not fail and returns one record for each line, in line order; a line whose fifth
  field is empty or otherwise not numeric gives a record with \<open>InstalledSizeKB\<close> 0 and with
  name, architecture, status, version and short description taken from the first, second,
  third, fourth and sixth field.
\<close>

theorem parseDpkgQueryOutput_six_fields:
  assumes "\<forall>text \<in> set (scanLines out). 6 \<le> length (Split text (CHR 0x09))"
  shows "parseDpkgQueryOutput out = Inr (map rowOf (scanLines out)) \<and>
         (\<forall>text \<in> set (scanLines out). \<not> numeric (Split text (CHR 0x09) ! 4) \<longrightarrow>
            rowOf text =
              \<lparr> Name = Split text (CHR 0x09) ! 0, Status = Split text (CHR 0x09) ! 2,
                Architecture = Split text (CHR 0x09) ! 1, Version = Split text (CHR 0x09) ! 3,
                ShortDescription = Split text (CHR 0x09) ! 5, InstalledSizeKB = 0 \<rparr>)"
  using parseRows_ok [OF assms, of "[]"]
  by (simp add: parseDpkgQueryOutput_def rowOf_def Atoi_non_numeric Let_def)

theorem parseDpkgQueryOutput_six_fields_witness:
  "scanLines emptySizeRow = [emptySizeRow] \<and>
   Split emptySizeRow (CHR 0x09) = [''vim'', ''amd64'', ''installed'', ''9.0'', [], ''Vi IMproved''] \<and>
   \<not> numeric [] \<and>
   parseDpkgQueryOutput emptySizeRow =
     Inr [\<lparr> Name = ''vim'', Status = ''installed'', Architecture = ''amd64'', Version = ''9.0'',
            ShortDescription = ''Vi IMproved'', InstalledSizeKB = 0 \<rparr>]"
proof -
  have a: "scanLines emptySizeRow = [emptySizeRow]"
    by (simp add: emptySizeRow_def shortRow_def scanLines_def MaxScanTokenSize_def dropCR_def)
  have b: "Split emptySizeRow (CHR 0x09) =
      [''vim'', ''amd64'', ''installed'', ''9.0'', [], ''Vi IMproved'']"
    by (simp add: emptySizeRow_def shortRow_def Split_def)
  have c: "\<not> numeric []"
    by (simp add: numeric_def)
  show ?thesis
    using a b c parseDpkgQueryOutput_six_fields [of emptySizeRow]
    by (simp add: rowOf_def)
qed

section \<open>Operations on packages\<close>

lemma appendNames_eq:
  "appendNames args packs =
     (if \<exists>p \<in> set packs. invalidPack p then None else Some (args @ names packs))"
  by (induction packs arbitrary: args) (auto simp: invalidPack_def names_def split: option.splits)

text \<open>
  C8: for every list of target packages passed to \<open>Install\<close>, \<open>Remove\<close> or \<open>Upgrade\<close>: if a
  package is nil or has an empty name, the operation fails with its "Invalid package with
  empty Name" error and no external tool has been run; otherwise exactly one invocation is
  issued, for the whole batch.
\<close>

theorem batch_invalid_or_one_invocation:
  "(if \<exists>p \<in> set packs. invalidPack p
    then Install packs w = (([], Some (InvalidPackage ''apt.Install'')), w) \<and>
         Remove packs w = (([], Some (InvalidPackage ''apt.Remove'')), w) \<and>
         Upgrade packs w = (([], Some (InvalidPackage ''apt.Upgrade'')), w)
    else invocations (snd (Install packs w)) =
           invocations w @ [(''apt-get'', [''install'', ''-y''] @ names packs)] \<and>
         invocations (snd (Remove packs w)) =
           invocations w @ [(''apt-get'', [''remove'', ''-y''] @ names packs)] \<and>
         invocations (snd (Upgrade packs w)) =
           invocations w @ [(''apt-get'', [''upgrade'', ''-y''] @ names packs)])"
  by (simp add: Install_def Remove_def Upgrade_def appendNames_eq CombinedOutput_def run_def)

theorem batch_invalid_or_one_invocation_witness:
  "Install [Some (pkg ''vim''), None] (idle quietTool) =
     (([], Some (InvalidPackage ''apt.Install'')), idle quietTool) \<and>
   Remove [Some (pkg ''vim''), Some (pkg [])] (idle quietTool) =
     (([], Some (InvalidPackage ''apt.Remove'')), idle quietTool) \<and>
   invocations (snd (Upgrade [Some (pkg ''vim''), Some (pkg ''git'')] (idle quietTool))) =
     [(''apt-get'', [''upgrade'', ''-y'', ''vim'', ''git''])]"
  using batch_invalid_or_one_invocation [of "[Some (pkg ''vim''), None]" "idle quietTool"]
    batch_invalid_or_one_invocation [of "[Some (pkg ''vim''), Some (pkg [])]" "idle quietTool"]
    batch_invalid_or_one_invocation [of "[Some (pkg ''vim''), Some (pkg ''git'')]" "idle quietTool"]
  by (simp add: invalidPack_def names_def pkg_def idle_def)

text \<open>
  C10: \<open>Upgrade\<close> with no package behaves as \<open>UpgradeAll\<close>: both run exactly
  \<open>apt-get upgrade -y\<close>, with no package argument, and return what the tool answers;
  \<open>Upgrade()\<close> is not rejected as invalid.
\<close>

theorem Upgrade_none_is_UpgradeAll:
  "Upgrade [] w = UpgradeAll w \<and>
   snd (Upgrade [] w) = w\<lparr>invocations := invocations w @ [(''apt-get'', [''upgrade'', ''-y''])]\<rparr> \<and>
   fst (Upgrade [] w) =
     (combined (tool w ''apt-get'' [''upgrade'', ''-y'']),
      map_option ExecError (failure (tool w ''apt-get'' [''upgrade'', ''-y''])))"
  by (simp add: Upgrade_def UpgradeAll_def CombinedOutput_def run_def)

theorem Upgrade_none_is_UpgradeAll_witness:
  "Upgrade [] (idle quietTool) = UpgradeAll (idle quietTool) \<and>
   invocations (snd (Upgrade [] (idle quietTool))) = [(''apt-get'', [''upgrade'', ''-y''])] \<and>
   fst (Upgrade [] (idle quietTool)) = ([], None)"
  using Upgrade_none_is_UpgradeAll [of "idle quietTool"]
  by (auto simp: idle_def quietTool_def)

section \<open>The dependency list\<close>

lemma splitFrom_nonempty: "splitFrom sep acc s \<noteq> []"
  by (induction s arbitrary: acc) auto

lemma depLoop_eq:
  "depLoop name ls seen acc =
     acc @ keepFirst (filter (\<lambda>n. n \<notin> seen)
                        (filter (\<lambda>n. n \<noteq> [] \<and> n \<noteq> name) (map lastToken ls)))"
proof (induction ls arbitrary: seen acc)
  case Nil
  show ?case by simp
next
  case (Cons dep rest)
  have ne: "Split dep (CHR '' '') \<noteq> []"
    by (simp add: Split_def splitFrom_nonempty)
  then have tok: "Split dep (CHR '' '') ! (length (Split dep (CHR '' '')) - Suc 0) = lastToken dep"
    by (simp add: lastToken_def last_conv_nth)
  show ?case
    using ne
    by (auto simp: Let_def tok Cons.IH intro!: arg_cong [where f = keepFirst] filter_cong)
qed

text \<open>
  C7: for every output of the dependency tool and every queried package name,
  \<open>GetDependencies\<close> returns the list obtained by splitting the output into lines, reversing
  them, taking the last space-separated token of each line, dropping the empty names and the
  queried name, and keeping of each name its first occurrence in that order. In particular
  the lines \<open>""\<close>, \<open>libc6\<close>, \<open>libfoo\<close>, \<open>mypkg\<close>, queried for \<open>mypkg\<close>, give \<open>libfoo\<close>, \<open>libc6\<close>.
\<close>

theorem GetDependencies_bottom_up:
  "GetDependencies (Some p) w =
     (if Name p = [] then (([], Some (InvalidPackage ''apt.GetDependencies'')), w)
      else case failure (tool w ''apt-cache'' [''depends'', ''-i'', ''--recurse'', Name p]) of
             Some err \<Rightarrow>
               (([], Some (ExecError err)),
                w\<lparr>invocations := invocations w @
                     [(''apt-cache'', [''depends'', ''-i'', ''--recurse'', Name p])]\<rparr>)
           | None \<Rightarrow>
               ((dependencyNames
                   (stdout (tool w ''apt-cache'' [''depends'', ''-i'', ''--recurse'', Name p]))
                   (Name p), None),
                w\<lparr>invocations := invocations w @
                     [(''apt-cache'', [''depends'', ''-i'', ''--recurse'', Name p])]\<rparr>)) \<and>
   Split (stdout (dependsTool n a)) (CHR 0x0A) = ['''', ''libc6'', ''libfoo'', ''mypkg''] \<and>
   fst (GetDependencies (Some (pkg ''mypkg'')) (idle dependsTool)) =
     ([''libfoo'', ''libc6''], None)"
proof (intro conjI)
  show "Split (stdout (dependsTool n a)) (CHR 0x0A) = ['''', ''libc6'', ''libfoo'', ''mypkg'']"
    by (simp add: dependsTool_def Split_def)
  show "fst (GetDependencies (Some (pkg ''mypkg'')) (idle dependsTool)) =
     ([''libfoo'', ''libc6''], None)"
    by (simp add: GetDependencies_def pkg_def run_def dependsTool_def Split_def Let_def idle_def)
qed (simp add: GetDependencies_def run_def depLoop_eq dependencyNames_def Let_def
       split: option.splits)

theorem GetDependencies_bottom_up_witness:
  "fst (GetDependencies (Some (pkg ''mypkg'')) (idle dependsTool)) =
     (dependencyNames (stdout (dependsTool ''apt-cache'' [])) ''mypkg'', None) \<and>
   dependencyNames (stdout (dependsTool ''apt-cache'' [])) ''mypkg'' = [''libfoo'', ''libc6'']"
  using GetDependencies_bottom_up [of "pkg ''mypkg''" "idle dependsTool"]
  by (simp add: pkg_def dependsTool_def dependencyNames_def Split_def lastToken_def idle_def)

end
